theory Spec2Isabelle
  imports Complex_Main
begin

section \<open>JavaScript values used by the alert model\<close>

text \<open>
  The alert engine of \<^verbatim>\<open>src/models/alert.js\<close> computes on JavaScript numbers. A number is
  a real, one of the two zeros, one of the two infinities, or NaN. \<open>Fin 0\<close> is the positive
  zero. Division by zero, the arithmetic of infinities and NaN, and the comparisons on them
  follow IEEE 754 as JavaScript does. A finite, non-zero result is the exact real, where
  the language rounds to the nearest double: the properties below rest on the zero,
  infinity and NaN branches and on comparisons only.
\<close>

datatype jsnum = Fin real | NegZero | PosInf | NegInf | NaN

datatype jsval = JUndefined | JNull | JBool bool | JNum jsnum

fun fin_val :: "jsnum \<Rightarrow> real" where
  "fin_val (Fin r) = r"
| "fin_val NegZero = 0"
| "fin_val PosInf = 0"
| "fin_val NegInf = 0"
| "fin_val NaN = 0"

fun is_inf :: "jsnum \<Rightarrow> bool" where
  "is_inf PosInf = True"
| "is_inf NegInf = True"
| "is_inf (Fin r) = False"
| "is_inf NegZero = False"
| "is_inf NaN = False"

fun is_zero :: "jsnum \<Rightarrow> bool" where
  "is_zero (Fin r) = (r = 0)"
| "is_zero NegZero = True"
| "is_zero PosInf = False"
| "is_zero NegInf = False"
| "is_zero NaN = False"

text \<open>The sign bit of a number that is not NaN.\<close>

fun sign_neg :: "jsnum \<Rightarrow> bool" where
  "sign_neg (Fin r) = (r < 0)"
| "sign_neg NegZero = True"
| "sign_neg PosInf = False"
| "sign_neg NegInf = True"
| "sign_neg NaN = False"

definition signed_zero :: "bool \<Rightarrow> jsnum" where
  "signed_zero neg = (if neg then NegZero else Fin 0)"

definition signed_inf :: "bool \<Rightarrow> jsnum" where
  "signed_inf neg = (if neg then NegInf else PosInf)"

text \<open>\<^verbatim>\<open>a - b\<close>: a zero difference is \<open>-0\<close> only for \<open>(-0) - (+0)\<close>.\<close>

definition js_sub :: "jsnum \<Rightarrow> jsnum \<Rightarrow> jsnum" where
  "js_sub a b =
     (if a = NaN \<or> b = NaN then NaN
      else if is_inf a \<and> is_inf b then (if a = b then NaN else a)
      else if is_inf a then a
      else if is_inf b then signed_inf (b = PosInf)
      else if fin_val a - fin_val b = 0 then signed_zero (a = NegZero \<and> b = Fin 0)
      else Fin (fin_val a - fin_val b))"

text \<open>\<^verbatim>\<open>a / b\<close>: never an exception; \<open>0/0\<close> and \<open>Infinity/Infinity\<close> are NaN, any other
  division by a zero is an infinity whose sign is the exclusive or of the operands' signs.\<close>

definition js_div :: "jsnum \<Rightarrow> jsnum \<Rightarrow> jsnum" where
  "js_div a b =
     (if a = NaN \<or> b = NaN then NaN
      else if is_inf a \<and> is_inf b then NaN
      else if is_zero a \<and> is_zero b then NaN
      else if is_inf a \<or> is_zero b then signed_inf (sign_neg a \<noteq> sign_neg b)
      else if is_inf b \<or> is_zero a then signed_zero (sign_neg a \<noteq> sign_neg b)
      else Fin (fin_val a / fin_val b))"

definition js_mul :: "jsnum \<Rightarrow> jsnum \<Rightarrow> jsnum" where
  "js_mul a b =
     (if a = NaN \<or> b = NaN then NaN
      else if (is_inf a \<and> is_zero b) \<or> (is_zero a \<and> is_inf b) then NaN
      else if is_inf a \<or> is_inf b then signed_inf (sign_neg a \<noteq> sign_neg b)
      else if is_zero a \<or> is_zero b then signed_zero (sign_neg a \<noteq> sign_neg b)
      else Fin (fin_val a * fin_val b))"

text \<open>\<^verbatim>\<open>a <= b\<close> and \<^verbatim>\<open>a >= b\<close> on numbers: false as soon as one side is NaN.\<close>

definition js_le :: "jsnum \<Rightarrow> jsnum \<Rightarrow> bool" where
  "js_le a b =
     (if a = NaN \<or> b = NaN then False
      else if a = NegInf \<or> b = PosInf then True
      else if a = PosInf \<or> b = NegInf then False
      else fin_val a \<le> fin_val b)"

definition js_ge :: "jsnum \<Rightarrow> jsnum \<Rightarrow> bool" where
  "js_ge a b = js_le b a"

text \<open>ToNumber and ToBoolean of the language, on the values that occur here.\<close>

fun to_number :: "jsval \<Rightarrow> jsnum" where
  "to_number JUndefined = NaN"
| "to_number JNull = Fin 0"
| "to_number (JBool b) = (if b then Fin 1 else Fin 0)"
| "to_number (JNum n) = n"

fun truthy :: "jsval \<Rightarrow> bool" where
  "truthy JUndefined = False"
| "truthy JNull = False"
| "truthy (JBool b) = b"
| "truthy (JNum n) = (\<not> is_zero n \<and> n \<noteq> NaN)"

section \<open>The alert document\<close>

datatype condition_type =
    PRICE_ABOVE | PRICE_BELOW | PRICE_PERCENT_UP | PRICE_PERCENT_DOWN
  | VOLUME_ABOVE | VOLUME_BELOW | PRICE_CHANGE_UP | PRICE_CHANGE_DOWN

datatype alert_status = ACTIVE | TRIGGERED | CANCELLED | EXPIRED | DISABLED

text \<open>
  The populated \<^verbatim>\<open>stock\<close> reference, as far as the evaluator and \<^verbatim>\<open>trigger\<close>
  read it: \<^verbatim>\<open>currentPrice.change\<close> and \<^verbatim>\<open>dailyData.previousClose\<close>. A sub-object
  that is missing is \<open>None\<close>; a field without a value is \<open>JUndefined\<close>.
\<close>

record price_data =
  change :: jsval

record daily_data =
  previousClose :: jsval

record stock_doc =
  currentPrice :: "price_data option"
  dailyData :: "daily_data option"

record condition_doc =
  ctype :: condition_type
  targetValue :: jsnum

text \<open>
  Dates are milliseconds since the epoch; a date field holding \<^verbatim>\<open>null\<close> is \<open>None\<close>.
  \<^verbatim>\<open>sendCount\<close> and \<^verbatim>\<open>maxSends\<close> are schema Numbers with a lower bound and no
  integer check (the controller passes \<^verbatim>\<open>notification.maxSends\<close> through as given), so
  they are reals: \<open>1.5\<close> is a \<^verbatim>\<open>maxSends\<close> the code accepts. \<^verbatim>\<open>cooldownMinutes\<close> and
  \<^verbatim>\<open>triggerCount\<close> are whole numbers.
\<close>

record notification_doc =
  lastSent :: "int option"
  sendCount :: real
  maxSends :: real
  cooldownMinutes :: int

record trigger_data =
  priceAtTrigger :: jsval
  volumeAtTrigger :: jsval
  changeAtTrigger :: jsval
  conditionsMet :: "(condition_type \<times> bool) list"

record user_preferences =
  snoozeUntil :: "int option"
  isMuted :: bool

text \<open>
  The field \<open>stock\<close> is \<open>None\<close> when the reference is \<^verbatim>\<open>null\<close> or is an id that was
  not populated: \<^verbatim>\<open>stock.currentPrice\<close> is \<^verbatim>\<open>undefined\<close> in both cases. The fields
  that no modelled operation reads (names, tags, \<^verbatim>\<open>stockSymbol\<close>, view counters) are left
  out.
\<close>

record alert =
  stock :: "stock_doc option"
  condition :: condition_doc
  status :: alert_status
  isActive :: bool
  notification :: notification_doc
  triggeredAt :: "int option"
  triggerCount :: int
  triggerData :: trigger_data
  endDate :: "int option"
  expiresAt :: "int option"
  userPreferences :: user_preferences
  version :: int

text \<open>
  Errors. \<open>TypeError\<close> is what reading a property of \<^verbatim>\<open>undefined\<close> throws;
  \<open>ValidationError\<close> is what \<^verbatim>\<open>save()\<close> rejects with when a value does not fit the
  schema. The other two are the errors the specification names; no path of the source
  raises them.
\<close>

datatype alert_error =
  TypeError | ValidationError | InvalidStateError | ConcurrentModificationError

section \<open>The condition evaluator\<close>

text \<open>
  \<^verbatim>\<open>checkConditions(currentPrice, volume = null)\<close>. The default parameter replaces an
  \<^verbatim>\<open>undefined\<close> volume by \<^verbatim>\<open>null\<close>. The volume cases return
  \<^verbatim>\<open>volume && volume >= target\<close>, which is the volume itself when it is falsy.
\<close>

definition volume_default :: "jsval \<Rightarrow> jsval" where
  "volume_default v = (if v = JUndefined then JNull else v)"

definition read_previousClose :: "stock_doc \<Rightarrow> alert_error + jsnum" where
  "read_previousClose s =
     (case dailyData s of
        None \<Rightarrow> Inl TypeError
      | Some d \<Rightarrow> Inr (to_number (previousClose d)))"

definition checkConditions :: "alert \<Rightarrow> jsval \<Rightarrow> jsval \<Rightarrow> alert_error + jsval" where
  "checkConditions a price vol =
     (let target = targetValue (condition a);
          volume = volume_default vol;
          p = to_number price
      in case stock a of
           None \<Rightarrow> Inr (JBool False)
         | Some s \<Rightarrow>
             (case currentPrice s of
                None \<Rightarrow> Inr (JBool False)
              | Some cp \<Rightarrow>
                  (case ctype (condition a) of
                     PRICE_ABOVE \<Rightarrow> Inr (JBool (js_ge p target))
                   | PRICE_BELOW \<Rightarrow> Inr (JBool (js_le p target))
                   | PRICE_PERCENT_UP \<Rightarrow>
                       (case read_previousClose s of
                          Inl e \<Rightarrow> Inl e
                        | Inr pc \<Rightarrow>
                            Inr (JBool (js_ge (js_mul (js_div (js_sub p pc) pc) (Fin 100)) target)))
                   | PRICE_PERCENT_DOWN \<Rightarrow>
                       (case read_previousClose s of
                          Inl e \<Rightarrow> Inl e
                        | Inr pc \<Rightarrow>
                            Inr (JBool (js_ge (js_mul (js_div (js_sub pc p) pc) (Fin 100)) target)))
                   | VOLUME_ABOVE \<Rightarrow>
                       Inr (if truthy volume then JBool (js_ge (to_number volume) target)
                            else volume)
                   | VOLUME_BELOW \<Rightarrow>
                       Inr (if truthy volume then JBool (js_le (to_number volume) target)
                            else volume)
                   | PRICE_CHANGE_UP \<Rightarrow>
                       (case read_previousClose s of
                          Inl e \<Rightarrow> Inl e
                        | Inr pc \<Rightarrow> Inr (JBool (js_ge (js_sub p pc) target)))
                   | PRICE_CHANGE_DOWN \<Rightarrow>
                       (case read_previousClose s of
                          Inl e \<Rightarrow> Inl e
                        | Inr pc \<Rightarrow> Inr (JBool (js_ge (js_sub pc p) target))))))"

text \<open>A condition is met when the evaluator returns a truthy value, as the caller
  \<^verbatim>\<open>shouldTrigger && alert.canTriggerAgain\<close> reads it.\<close>

definition condition_met :: "alert \<Rightarrow> jsval \<Rightarrow> jsval \<Rightarrow> bool" where
  "condition_met a price vol =
     (case checkConditions a price vol of Inl e \<Rightarrow> False | Inr r \<Rightarrow> truthy r)"

section \<open>The trigger gate\<close>

text \<open>
  The virtuals \<^verbatim>\<open>isExpired\<close> and \<^verbatim>\<open>canTriggerAgain\<close>. Each \<^verbatim>\<open>new Date()\<close> of one
  evaluation is the same instant \<open>now\<close>. A date object is truthy, so
  \<^verbatim>\<open>!this.expiresAt\<close> holds exactly for \<^verbatim>\<open>null\<close>.
\<close>

definition isExpired :: "alert \<Rightarrow> int \<Rightarrow> bool" where
  "isExpired a now = (case expiresAt a of None \<Rightarrow> False | Some e \<Rightarrow> e < now)"

definition snoozed :: "alert \<Rightarrow> int \<Rightarrow> bool" where
  "snoozed a now =
     (case snoozeUntil (userPreferences a) of None \<Rightarrow> False | Some s \<Rightarrow> s > now)"

definition canTriggerAgain :: "alert \<Rightarrow> int \<Rightarrow> bool" where
  "canTriggerAgain a now =
     (if status a \<noteq> ACTIVE then False
      else if isExpired a now then False
      else if sendCount (notification a) \<ge> maxSends (notification a) then False
      else if snoozed a now then False
      else (case lastSent (notification a) of
              None \<Rightarrow> True
            | Some t \<Rightarrow>
                if cooldownMinutes (notification a) > 0
                then now - t > cooldownMinutes (notification a) * 60 * 1000
                else True))"

text \<open>
  The filter of the query in \<^verbatim>\<open>checkStockAlerts\<close> (and \<^verbatim>\<open>findActiveByUser\<close>), apart
  from the selection by symbol or user:
  \<^verbatim>\<open>isActive: true, status: 'ACTIVE', $or: [{expiresAt: null}, {expiresAt: {$gt: new Date()}}]\<close>.
\<close>

definition active_query :: "alert \<Rightarrow> int \<Rightarrow> bool" where
  "active_query a now =
     (isActive a \<and> status a = ACTIVE \<and>
      (case expiresAt a of None \<Rightarrow> True | Some e \<Rightarrow> e > now))"

section \<open>The state machine\<close>

text \<open>
  Assigning to a path of type Number casts the value: \<^verbatim>\<open>undefined\<close> and \<^verbatim>\<open>null\<close> stay,
  a boolean becomes 0 or 1, a number stays unless it is NaN. NaN does not cast: the value
  is not stored (the path is left \<^verbatim>\<open>undefined\<close>) and the document is marked invalid.
\<close>

definition cast_number :: "jsval \<Rightarrow> jsval option" where
  "cast_number v =
     (case v of
        JUndefined \<Rightarrow> Some JUndefined
      | JNull \<Rightarrow> Some JNull
      | JBool b \<Rightarrow> Some (JNum (if b then Fin 1 else Fin 0))
      | JNum n \<Rightarrow> (if n = NaN then None else Some (JNum n)))"

definition cast_fails :: "jsval \<Rightarrow> bool" where
  "cast_fails v = (cast_number v = None)"

definition stored_number :: "jsval \<Rightarrow> jsval" where
  "stored_number v = (case cast_number v of None \<Rightarrow> JUndefined | Some w \<Rightarrow> w)"

text \<open>
  \<^verbatim>\<open>save()\<close> validates, runs the two \<^verbatim>\<open>pre('save')\<close> hooks and writes the document.
  The first hook only fills \<^verbatim>\<open>stockSymbol\<close>; the second derives \<^verbatim>\<open>expiresAt\<close> from
  \<^verbatim>\<open>endDate\<close>. When an assignment since the document was read did not cast
  (\<open>cast_error\<close>), \<^verbatim>\<open>save()\<close> rejects with a \<open>ValidationError\<close> and writes nothing.
  Otherwise the write is unconditional: the schema sets no optimistic-concurrency option and
  no method reads the field \<^verbatim>\<open>version\<close>.

  An \<open>alert\<close> is a document read from the collection, where it passed the validators of
  the schema (\<^verbatim>\<open>required\<close>, \<^verbatim>\<open>enum\<close>, \<^verbatim>\<open>min\<close>); the operations below write constants,
  dates and counters raised by one, which pass them again, so that the values a caller
  hands in are all that validation can refuse. Failures of the storage itself are not
  modelled.
\<close>

definition pre_save :: "alert \<Rightarrow> alert" where
  "pre_save a =
     (if endDate a \<noteq> None \<and> expiresAt a = None then a\<lparr>expiresAt := endDate a\<rparr> else a)"

definition save :: "bool \<Rightarrow> alert \<Rightarrow> alert_error + alert" where
  "save cast_error a = (if cast_error then Inl ValidationError else Inr (pre_save a))"

text \<open>\<^verbatim>\<open>this.stock?.currentPrice?.change || 0\<close>\<close>

definition change_or_zero :: "stock_doc option \<Rightarrow> jsval" where
  "change_or_zero so =
     (let c = (case so of
                 None \<Rightarrow> JUndefined
               | Some s \<Rightarrow> (case currentPrice s of None \<Rightarrow> JUndefined | Some cp \<Rightarrow> change cp))
      in if truthy c then c else JNum (Fin 0))"

text \<open>
  \<^verbatim>\<open>trigger(currentPrice, volume = null)\<close>: the assignments in the order of the source,
  then \<^verbatim>\<open>save()\<close>. The three numbers of \<^verbatim>\<open>triggerData\<close> are cast as they are assigned;
  a price or volume that is NaN makes \<^verbatim>\<open>save()\<close> reject, and \<^verbatim>\<open>trigger\<close> with it. The
  \<^verbatim>\<open>emit\<close> that follows a successful save has no listener and changes nothing.
\<close>

definition trigger :: "alert \<Rightarrow> jsval \<Rightarrow> jsval \<Rightarrow> int \<Rightarrow> alert_error + alert" where
  "trigger a price vol now =
     (let volume = volume_default vol;
          a1 = a\<lparr>status := TRIGGERED, triggeredAt := Some now,
                 triggerCount := triggerCount a + 1\<rparr>;
          chg = change_or_zero (stock a1);
          a2 = a1\<lparr>triggerData :=
                 \<lparr>priceAtTrigger = stored_number price,
                  volumeAtTrigger = stored_number volume,
                  changeAtTrigger = stored_number chg,
                  conditionsMet = [(ctype (condition a1), True)]\<rparr>\<rparr>;
          a3 = a2\<lparr>notification := (notification a2)\<lparr>lastSent := Some now,
                                         sendCount := sendCount (notification a2) + 1\<rparr>\<rparr>;
          a4 = (if sendCount (notification a3) \<ge> maxSends (notification a3)
                then a3\<lparr>isActive := False\<rparr> else a3)
      in save (cast_fails price \<or> cast_fails volume \<or> cast_fails chg) a4)"

text \<open>\<^verbatim>\<open>this.triggerData = {}\<close> leaves every field of the snapshot without a value.\<close>

definition empty_triggerData :: trigger_data where
  "empty_triggerData =
     \<lparr>priceAtTrigger = JUndefined, volumeAtTrigger = JUndefined,
      changeAtTrigger = JUndefined, conditionsMet = []\<rparr>"

definition reset :: "alert \<Rightarrow> alert_error + alert" where
  "reset a =
     save False (a\<lparr>status := ACTIVE, triggeredAt := None, triggerData := empty_triggerData,
             notification := (notification a)\<lparr>sendCount := 0, lastSent := None\<rparr>\<rparr>)"

text \<open>
  \<^verbatim>\<open>new Date(t)\<close>: a time value that is NaN, infinite or beyond \<open>8.64e15\<close> milliseconds
  gives an invalid date (\<open>None\<close>), any other is truncated towards zero.
\<close>

definition new_Date :: "jsnum \<Rightarrow> int option" where
  "new_Date t =
     (if t = NaN \<or> is_inf t then None
      else if \<bar>fin_val t\<bar> > 8640000000000000 then None
      else Some (if fin_val t \<ge> 0 then \<lfloor>fin_val t\<rfloor> else \<lceil>fin_val t\<rceil>))"

text \<open>\<^verbatim>\<open>Date.now() + x\<close> for a number \<open>x\<close>; \<open>now\<close> is finite and not zero.\<close>

definition now_plus :: "int \<Rightarrow> jsnum \<Rightarrow> jsnum" where
  "now_plus now x =
     (if x = NaN \<or> is_inf x then x
      else if real_of_int now + fin_val x = 0 then Fin 0
      else Fin (real_of_int now + fin_val x))"

text \<open>
  \<^verbatim>\<open>snooze(minutes = 60)\<close>: the default replaces an \<^verbatim>\<open>undefined\<close> argument. An invalid
  date does not cast to the Date path \<^verbatim>\<open>snoozeUntil\<close>, and \<^verbatim>\<open>save()\<close> rejects.
\<close>

definition snooze :: "alert \<Rightarrow> jsval \<Rightarrow> int \<Rightarrow> alert_error + alert" where
  "snooze a minutes now =
     (let m = (if minutes = JUndefined then Fin 60 else to_number minutes);
          d = new_Date (now_plus now (js_mul (js_mul m (Fin 60)) (Fin 1000)))
      in case d of
           None \<Rightarrow> save True a
         | Some t \<Rightarrow>
             save False (a\<lparr>userPreferences := (userPreferences a)\<lparr>snoozeUntil := Some t\<rparr>\<rparr>))"

definition cancel :: "alert \<Rightarrow> alert_error + alert" where
  "cancel a = save False (a\<lparr>status := CANCELLED, isActive := False\<rparr>)"

definition enable :: "alert \<Rightarrow> alert_error + alert" where
  "enable a = save False (a\<lparr>status := ACTIVE, isActive := True\<rparr>)"

definition disable :: "alert \<Rightarrow> alert_error + alert" where
  "disable a = save False (a\<lparr>status := DISABLED, isActive := False\<rparr>)"

text \<open>
  Two scanners that both read the stored alert \<open>a\<close> before either has written, and then
  each call \<^verbatim>\<open>trigger\<close> on their own copy: the pair of their results.
\<close>

definition concurrent_triggers ::
  "alert \<Rightarrow> jsval \<Rightarrow> jsval \<Rightarrow> int \<Rightarrow> int \<Rightarrow> (alert_error + alert) \<times> (alert_error + alert)" where
  "concurrent_triggers a price vol now1 now2 =
     (let copy1 = a; copy2 = a
      in (trigger copy1 price vol now1, trigger copy2 price vol now2))"

section \<open>Sample documents\<close>

text \<open>A stock with a price object and daily data whose previous close is \<open>pc\<close>.\<close>

definition sample_stock :: "jsval \<Rightarrow> stock_doc" where
  "sample_stock pc =
     \<lparr>currentPrice = Some \<lparr>change = JNum (Fin 0)\<rparr>,
      dailyData = Some \<lparr>previousClose = pc\<rparr>\<rparr>"

text \<open>A freshly created alert with the schema defaults: \<^verbatim>\<open>maxSends\<close> 1, no cooldown,
  no expiry, not snoozed, not muted.\<close>

definition sample_alert :: "condition_type \<Rightarrow> jsnum \<Rightarrow> jsval \<Rightarrow> alert" where
  "sample_alert ct target pc =
     \<lparr>stock = Some (sample_stock pc),
      condition = \<lparr>ctype = ct, targetValue = target\<rparr>,
      status = ACTIVE,
      isActive = True,
      notification = \<lparr>lastSent = None, sendCount = 0, maxSends = 1, cooldownMinutes = 0\<rparr>,
      triggeredAt = None,
      triggerCount = 0,
      triggerData = \<lparr>priceAtTrigger = JNull, volumeAtTrigger = JNull,
                     changeAtTrigger = JNull, conditionsMet = []\<rparr>,
      endDate = None,
      expiresAt = None,
      userPreferences = \<lparr>snoozeUntil = None, isMuted = False\<rparr>,
      version = 1\<rparr>"

text \<open>An alert that is eligible except for what the arguments say: the given expiry,
  last send, cooldown and user preferences, with room for three sends.\<close>

definition gated_alert ::
  "int option \<Rightarrow> int option \<Rightarrow> int \<Rightarrow> user_preferences \<Rightarrow> alert" where
  "gated_alert ex ls cd up =
     (sample_alert PRICE_ABOVE (Fin 150) (JNum (Fin 100)))
       \<lparr>notification := \<lparr>lastSent = ls, sendCount = 0, maxSends = 3, cooldownMinutes = cd\<rparr>,
        expiresAt := ex, userPreferences := up\<rparr>"

text \<open>An alert created through the API with \<open>notification.maxSends = 1.5\<close>.\<close>

definition fractional_alert :: alert where
  "fractional_alert =
     (sample_alert PRICE_ABOVE (Fin 150) (JNum (Fin 100)))
       \<lparr>notification := \<lparr>lastSent = None, sendCount = 0, maxSends = 3 / 2,
                          cooldownMinutes = 0\<rparr>\<rparr>"

section \<open>Properties of the operations\<close>

subsection \<open>What saving leaves alone\<close>

lemma pre_save_fields:
  "status (pre_save a) = status a"
  "isActive (pre_save a) = isActive a"
  "notification (pre_save a) = notification a"
  "triggeredAt (pre_save a) = triggeredAt a"
  "triggerCount (pre_save a) = triggerCount a"
  "triggerData (pre_save a) = triggerData a"
  "userPreferences (pre_save a) = userPreferences a"
  "version (pre_save a) = version a"
  by (simp_all add: pre_save_def)

lemma snoozed_pre_save: "snoozed (pre_save a) now = snoozed a now"
  by (simp add: snoozed_def pre_save_fields)

lemma cast_fails_iff: "cast_fails v \<longleftrightarrow> v = JNum NaN"
  by (simp add: cast_fails_def cast_number_def split: jsval.splits)

lemma volume_default_NaN: "volume_default v = JNum NaN \<longleftrightarrow> v = JNum NaN"
  by (simp add: volume_default_def)

lemma change_or_zero_casts: "change_or_zero so \<noteq> JNum NaN"
  by (auto simp add: change_or_zero_def Let_def)

text \<open>\<^verbatim>\<open>trigger\<close> fails exactly on a NaN price or volume, and then with the validation
  error of \<^verbatim>\<open>save()\<close>; otherwise it returns the saved document.\<close>

lemma trigger_rejects:
  "p = JNum NaN \<or> v = JNum NaN \<Longrightarrow> trigger a p v now = Inl ValidationError"
  by (auto simp add: trigger_def save_def Let_def cast_fails_iff volume_default_NaN)

lemma trigger_returns:
  assumes "p \<noteq> JNum NaN" and "v \<noteq> JNum NaN"
  shows "trigger a p v now =
     Inr (pre_save
       (a\<lparr>status := TRIGGERED, triggeredAt := Some now, triggerCount := triggerCount a + 1,
          triggerData := \<lparr>priceAtTrigger = stored_number p,
                          volumeAtTrigger = stored_number (volume_default v),
                          changeAtTrigger = stored_number (change_or_zero (stock a)),
                          conditionsMet = [(ctype (condition a), True)]\<rparr>,
          notification := (notification a)\<lparr>lastSent := Some now,
                                           sendCount := sendCount (notification a) + 1\<rparr>,
          isActive := (if sendCount (notification a) + 1 \<ge> maxSends (notification a)
                       then False else isActive a)\<rparr>))"
  using assms
  by (simp add: trigger_def save_def Let_def cast_fails_iff volume_default_NaN
      change_or_zero_casts)

lemma trigger_not_concurrent_error:
  "trigger a p v now \<noteq> Inl ConcurrentModificationError"
  by (cases "p = JNum NaN \<or> v = JNum NaN") (auto simp add: trigger_rejects trigger_returns)

lemma trigger_committed:
  assumes "trigger a p v now = Inr a'"
  shows "status a' = TRIGGERED" and "version a' = version a"
    and "sendCount (notification a') = sendCount (notification a) + 1"
    and "maxSends (notification a') = maxSends (notification a)"
    and "triggerCount a' = triggerCount a + 1"
    and "isActive a' = (if sendCount (notification a) + 1 \<ge> maxSends (notification a)
                        then False else isActive a)"
proof -
  from assms have ok: "p \<noteq> JNum NaN" "v \<noteq> JNum NaN"
    using trigger_rejects [of p v a now] by auto
  from assms trigger_returns [OF ok, of a now]
  show "status a' = TRIGGERED" and "version a' = version a"
    and "sendCount (notification a') = sendCount (notification a) + 1"
    and "maxSends (notification a') = maxSends (notification a)"
    and "triggerCount a' = triggerCount a + 1"
    and "isActive a' = (if sendCount (notification a) + 1 \<ge> maxSends (notification a)
                        then False else isActive a)"
    by (auto simp add: pre_save_fields)
qed

lemma reset_returns:
  "reset a =
     Inr (pre_save
       (a\<lparr>status := ACTIVE, triggeredAt := None, triggerData := empty_triggerData,
          notification := (notification a)\<lparr>sendCount := 0, lastSent := None\<rparr>\<rparr>))"
  by (simp add: reset_def save_def)

subsection \<open>Concurrent triggers\<close>

text \<open>
  C1. Claimed: of two concurrent \<^verbatim>\<open>trigger()\<close> attempts on the same alert exactly one
  commits and the other fails with \<open>ConcurrentModificationError\<close>. On a fresh eligible
  alert, read by two scanners before either writes, both attempts return the committed
  alert and neither returns an error.
\<close>

theorem C1_both_attempts_commit:
  "\<not> isl (fst (concurrent_triggers (sample_alert PRICE_ABOVE (Fin 150) (JNum (Fin 100)))
                  (JNum (Fin 150)) JNull 1000 1001))
   \<and> \<not> isl (snd (concurrent_triggers (sample_alert PRICE_ABOVE (Fin 150) (JNum (Fin 100)))
                  (JNum (Fin 150)) JNull 1000 1001))
   \<and> status (projr (snd (concurrent_triggers
                  (sample_alert PRICE_ABOVE (Fin 150) (JNum (Fin 100)))
                  (JNum (Fin 150)) JNull 1000 1001))) = TRIGGERED"
  by (simp add: concurrent_triggers_def Let_def trigger_returns pre_save_fields)

text \<open>
  C1, as the code has it: \<^verbatim>\<open>trigger()\<close> makes no version check. No attempt fails with
  \<open>ConcurrentModificationError\<close>; an attempt that commits leaves the alert \<open>TRIGGERED\<close>
  and the field \<^verbatim>\<open>version\<close> as it was; and of two concurrent attempts on the same stored
  alert, made with a price and a volume that the schema accepts (neither is NaN), both
  commit.
\<close>

theorem C1_trigger_no_version_check:
  "fst (concurrent_triggers a p v now1 now2) \<noteq> Inl ConcurrentModificationError
   \<and> snd (concurrent_triggers a p v now1 now2) \<noteq> Inl ConcurrentModificationError
   \<and> (\<forall>a'. fst (concurrent_triggers a p v now1 now2) = Inr a'
             \<or> snd (concurrent_triggers a p v now1 now2) = Inr a'
           \<longrightarrow> status a' = TRIGGERED \<and> version a' = version a)
   \<and> (p \<noteq> JNum NaN \<and> v \<noteq> JNum NaN
        \<longrightarrow> \<not> isl (fst (concurrent_triggers a p v now1 now2))
          \<and> \<not> isl (snd (concurrent_triggers a p v now1 now2)))"
proof -
  have pair: "concurrent_triggers a p v now1 now2 = (trigger a p v now1, trigger a p v now2)"
    by (simp add: concurrent_triggers_def Let_def)
  have no_cme: "trigger a p v t \<noteq> Inl ConcurrentModificationError" for t
    by (rule trigger_not_concurrent_error)
  have committed: "status a' = TRIGGERED \<and> version a' = version a"
    if "trigger a p v t = Inr a'" for t a'
    using trigger_committed(1,2) [OF that] by simp
  have both: "\<not> isl (trigger a p v t)" if "p \<noteq> JNum NaN \<and> v \<noteq> JNum NaN" for t
    using that by (simp add: trigger_returns)
  show ?thesis
    unfolding pair fst_conv snd_conv
    using no_cme committed both by blast
qed

theorem C1_trigger_no_version_check_witness:
  "JNum (Fin 150) \<noteq> JNum NaN \<and> JNull \<noteq> JNum NaN
   \<and> \<not> isl (fst (concurrent_triggers (sample_alert PRICE_ABOVE (Fin 150) (JNum (Fin 100)))
                    (JNum (Fin 150)) JNull 1000 1001))
   \<and> \<not> isl (snd (concurrent_triggers (sample_alert PRICE_ABOVE (Fin 150) (JNum (Fin 100)))
                    (JNum (Fin 150)) JNull 1000 1001))"
  using C1_trigger_no_version_check
      [of "sample_alert PRICE_ABOVE (Fin 150) (JNum (Fin 100))" "JNum (Fin 150)" JNull 1000 1001]
  by simp

subsection \<open>Counters of a trigger\<close>

text \<open>
  C2. Claimed: for every alert with \<open>sendCount < maxSends\<close> a successful \<^verbatim>\<open>trigger()\<close>
  keeps \<open>sendCount \<le> maxSends\<close> and writes \<open>isActive = false\<close> exactly when the new
  \<^verbatim>\<open>sendCount\<close> equals \<^verbatim>\<open>maxSends\<close>. An alert created with \<open>maxSends = 1.5\<close> and
  triggered once has \<open>sendCount = 1 < 1.5\<close>; the next \<^verbatim>\<open>trigger()\<close> succeeds and leaves
  \<open>sendCount = 2\<close>, above \<^verbatim>\<open>maxSends\<close>, with \<open>isActive = false\<close> although \<open>2 \<noteq> 1.5\<close>.
\<close>

theorem C2_fractional_maxSends_overshoots:
  "sendCount (notification (projr (trigger (fractional_alert) (JNum (Fin 150)) JNull 1000)))
     < maxSends (notification (projr (trigger (fractional_alert) (JNum (Fin 150)) JNull 1000)))
   \<and> \<not> isl (trigger (projr (trigger (fractional_alert) (JNum (Fin 150)) JNull 1000))
               (JNum (Fin 151)) JNull 2000)
   \<and> sendCount (notification (projr (trigger
         (projr (trigger (fractional_alert) (JNum (Fin 150)) JNull 1000))
         (JNum (Fin 151)) JNull 2000))) = 2
   \<and> maxSends (notification (projr (trigger
         (projr (trigger (fractional_alert) (JNum (Fin 150)) JNull 1000))
         (JNum (Fin 151)) JNull 2000))) = 3 / 2
   \<and> isActive (projr (trigger (fractional_alert) (JNum (Fin 150)) JNull 1000))
   \<and> \<not> isActive (projr (trigger
         (projr (trigger (fractional_alert) (JNum (Fin 150)) JNull 1000))
         (JNum (Fin 151)) JNull 2000))"
  by (simp add: trigger_returns pre_save_fields fractional_alert_def sample_alert_def)

text \<open>
  C2, as the code has it. For every alert whose \<^verbatim>\<open>sendCount\<close> and \<^verbatim>\<open>maxSends\<close> are
  whole numbers with \<open>sendCount < maxSends\<close>, a successful \<^verbatim>\<open>trigger()\<close> raises
  \<^verbatim>\<open>sendCount\<close> and \<^verbatim>\<open>triggerCount\<close> by exactly one, keeps \<open>sendCount \<le> maxSends\<close>
  (\<^verbatim>\<open>maxSends\<close> itself unchanged), and in the same commit writes \<open>isActive = false\<close>
  exactly when the new \<^verbatim>\<open>sendCount\<close> equals \<^verbatim>\<open>maxSends\<close>; otherwise \<^verbatim>\<open>isActive\<close> is
  not touched.
\<close>

theorem C2_trigger_counts_whole:
  assumes "sendCount (notification a) \<in> \<int>" and "maxSends (notification a) \<in> \<int>"
    and "sendCount (notification a) < maxSends (notification a)"
    and "trigger a p v now = Inr a'"
  shows "sendCount (notification a') = sendCount (notification a) + 1
       \<and> triggerCount a' = triggerCount a + 1
       \<and> maxSends (notification a') = maxSends (notification a)
       \<and> sendCount (notification a') \<le> maxSends (notification a')
       \<and> isActive a' = (if sendCount (notification a') = maxSends (notification a')
                        then False else isActive a)"
proof -
  let ?n = "sendCount (notification a) + 1"
  from assms(1,2) obtain i j :: int
    where ij: "sendCount (notification a) = of_int i" "maxSends (notification a) = of_int j"
    by (auto elim!: Ints_cases)
  with assms(3) have "i < j" by simp
  then have "i + 1 \<le> j" by simp
  then have "(of_int (i + 1) :: real) \<le> of_int j" by (simp only: of_int_le_iff)
  with ij have le: "?n \<le> maxSends (notification a)" by simp
  then have eq: "(maxSends (notification a) \<le> ?n) = (?n = maxSends (notification a))"
    by auto
  from trigger_committed [OF assms(4)] le eq show ?thesis by simp
qed

theorem C2_trigger_counts_whole_witness:
  "sendCount (notification (gated_alert None None 0 \<lparr>snoozeUntil = None, isMuted = False\<rparr>))
     \<in> \<int>
   \<and> maxSends (notification (gated_alert None None 0 \<lparr>snoozeUntil = None, isMuted = False\<rparr>))
     \<in> \<int>
   \<and> sendCount (notification (gated_alert None None 0 \<lparr>snoozeUntil = None, isMuted = False\<rparr>))
     < maxSends (notification (gated_alert None None 0 \<lparr>snoozeUntil = None, isMuted = False\<rparr>))
   \<and> \<not> isl (trigger (gated_alert None None 0 \<lparr>snoozeUntil = None, isMuted = False\<rparr>)
                (JNum (Fin 150)) JNull 1000)
   \<and> sendCount (notification (projr (trigger
         (gated_alert None None 0 \<lparr>snoozeUntil = None, isMuted = False\<rparr>)
         (JNum (Fin 150)) JNull 1000))) = 1
   \<and> triggerCount (projr (trigger
         (gated_alert None None 0 \<lparr>snoozeUntil = None, isMuted = False\<rparr>)
         (JNum (Fin 150)) JNull 1000)) = 1
   \<and> isActive (projr (trigger
         (gated_alert None None 0 \<lparr>snoozeUntil = None, isMuted = False\<rparr>)
         (JNum (Fin 150)) JNull 1000))"
proof -
  let ?a = "gated_alert None None 0 \<lparr>snoozeUntil = None, isMuted = False\<rparr>"
  obtain a' where ret: "trigger ?a (JNum (Fin 150)) JNull 1000 = Inr a'"
    by (simp add: trigger_returns)
  have h1: "sendCount (notification ?a) \<in> \<int>" and h2: "maxSends (notification ?a) \<in> \<int>"
    and h3: "sendCount (notification ?a) < maxSends (notification ?a)"
    by (simp_all add: gated_alert_def)
  from C2_trigger_counts_whole [OF h1 h2 h3 ret] h1 h2 h3 ret show ?thesis
    by (simp add: gated_alert_def sample_alert_def)
qed

subsection \<open>Percentage conditions and a missing or zero previous close\<close>

lemma percent_up_zero_close:
  "js_ge (js_mul (js_div (js_sub (Fin r) (Fin 0)) (Fin 0)) (Fin 100)) (Fin t) = (r > 0)"
  by (simp add: js_sub_def js_div_def js_mul_def js_ge_def js_le_def signed_zero_def
      signed_inf_def)

lemma percent_down_zero_close:
  "js_ge (js_mul (js_div (js_sub (Fin 0) (Fin r)) (Fin 0)) (Fin 100)) (Fin t) = (r < 0)"
  by (simp add: js_sub_def js_div_def js_mul_def js_ge_def js_le_def signed_zero_def
      signed_inf_def)

lemma percent_undefined_close:
  "js_ge (js_mul (js_div (js_sub x NaN) NaN) (Fin 100)) t = False"
  "js_ge (js_mul (js_div (js_sub NaN x) NaN) (Fin 100)) t = False"
  by (simp_all add: js_sub_def js_div_def js_mul_def js_ge_def js_le_def)

text \<open>
  C3. Claimed: with \<^verbatim>\<open>previousClose\<close> absent or zero a percentage condition evaluates to
  false. With a previous close of 0, a price of 10 and a target of 5 percent,
  \<^verbatim>\<open>PRICE_PERCENT_UP\<close> evaluates to true: \<open>(10 - 0) / 0\<close> is \<open>Infinity\<close>.
\<close>

theorem C3_zero_close_fires:
  "checkConditions (sample_alert PRICE_PERCENT_UP (Fin 5) (JNum (Fin 0)))
     (JNum (Fin 10)) JNull = Inr (JBool True)"
  by (simp add: checkConditions_def sample_alert_def sample_stock_def read_previousClose_def
      percent_up_zero_close)

text \<open>
  C3, as the code has it. For a \<^verbatim>\<open>PRICE_PERCENT_UP\<close> or \<^verbatim>\<open>PRICE_PERCENT_DOWN\<close>
  condition on an alert whose stock has its price and daily data: when
  \<^verbatim>\<open>previousClose\<close> is absent the evaluator returns false and does not throw; when
  \<^verbatim>\<open>previousClose\<close> is zero it does not throw either, and for a finite price and target
  it returns true exactly when the price is above zero (\<^verbatim>\<open>PRICE_PERCENT_UP\<close>) or below
  zero (\<^verbatim>\<open>PRICE_PERCENT_DOWN\<close>), the quotient being \<open>+Infinity\<close> there. Zero is the
  positive zero \<open>Fin 0\<close>; whatever \<^verbatim>\<open>previousClose\<close> holds, the evaluator returns a value.
\<close>

theorem C3_percent_missing_or_zero_close:
  assumes "ctype (condition a) = PRICE_PERCENT_UP \<or> ctype (condition a) = PRICE_PERCENT_DOWN"
    and "stock a = Some s" and "currentPrice s = Some cp" and "dailyData s = Some d"
  shows "(previousClose d = JUndefined \<longrightarrow> checkConditions a price vol = Inr (JBool False))
       \<and> (previousClose d = JNum (Fin 0) \<and> targetValue (condition a) = Fin t \<longrightarrow>
            checkConditions a (JNum (Fin r)) vol =
              Inr (JBool (if ctype (condition a) = PRICE_PERCENT_UP then r > 0 else r < 0)))
       \<and> \<not> isl (checkConditions a price vol)"
  using assms
  by (auto simp add: checkConditions_def read_previousClose_def percent_up_zero_close
      percent_down_zero_close percent_undefined_close)

theorem C3_percent_missing_or_zero_close_witness:
  "checkConditions (sample_alert PRICE_PERCENT_DOWN (Fin 5) JUndefined) (JNum (Fin 94)) JNull
     = Inr (JBool False)
   \<and> checkConditions (sample_alert PRICE_PERCENT_DOWN (Fin 5) (JNum (Fin 0)))
       (JNum (Fin (- 3))) JNull = Inr (JBool True)"
  using C3_percent_missing_or_zero_close
      [where a = "sample_alert PRICE_PERCENT_DOWN (Fin 5) JUndefined"
         and s = "sample_stock JUndefined" and cp = "\<lparr>change = JNum (Fin 0)\<rparr>"
         and d = "\<lparr>previousClose = JUndefined\<rparr>" and price = "JNum (Fin 94)" and vol = JNull]
    C3_percent_missing_or_zero_close
      [where a = "sample_alert PRICE_PERCENT_DOWN (Fin 5) (JNum (Fin 0))"
         and s = "sample_stock (JNum (Fin 0))" and cp = "\<lparr>change = JNum (Fin 0)\<rparr>"
         and d = "\<lparr>previousClose = JNum (Fin 0)\<rparr>" and t = 5 and r = "- 3" and vol = JNull]
  by (simp add: sample_alert_def sample_stock_def)

subsection \<open>Reset, enable and disable\<close>

lemma reset_fields:
  "status (projr (reset a)) = ACTIVE"
  "triggeredAt (projr (reset a)) = None"
  "triggerData (projr (reset a)) = empty_triggerData"
  "sendCount (notification (projr (reset a))) = 0"
  "lastSent (notification (projr (reset a))) = None"
  "isActive (projr (reset a)) = isActive a"
  "userPreferences (projr (reset a)) = userPreferences a"
  by (simp_all add: reset_returns pre_save_fields)

text \<open>
  C4. Claimed: \<^verbatim>\<open>reset()\<close> on an alert that is not cancelled restores \<open>status = ACTIVE\<close>,
  clears \<^verbatim>\<open>triggeredAt\<close> and the trigger snapshot, sets \<open>sendCount = 0\<close> and
  \<open>lastSent = null\<close>, and sets \<^verbatim>\<open>isActive\<close> back to true. Evaluated on an alert with
  \<open>maxSends = 1\<close> that has just been triggered (so \<^verbatim>\<open>trigger\<close> wrote \<open>isActive = false\<close>):
  the reset alert is \<open>ACTIVE\<close> with \<open>sendCount = 0\<close> and \<open>lastSent = null\<close>, but
  \<^verbatim>\<open>isActive\<close> is still false.
\<close>

theorem C4_reset_leaves_isActive_false:
  "status (projr (trigger (sample_alert PRICE_ABOVE (Fin 150) (JNum (Fin 100)))
                    (JNum (Fin 150)) JNull 1000)) = TRIGGERED
   \<and> \<not> isActive (projr (trigger (sample_alert PRICE_ABOVE (Fin 150) (JNum (Fin 100)))
                    (JNum (Fin 150)) JNull 1000))
   \<and> \<not> isl (reset (projr (trigger (sample_alert PRICE_ABOVE (Fin 150) (JNum (Fin 100)))
                    (JNum (Fin 150)) JNull 1000)))
   \<and> status (projr (reset (projr (trigger (sample_alert PRICE_ABOVE (Fin 150) (JNum (Fin 100)))
                    (JNum (Fin 150)) JNull 1000)))) = ACTIVE
   \<and> sendCount (notification (projr (reset (projr (trigger
                    (sample_alert PRICE_ABOVE (Fin 150) (JNum (Fin 100)))
                    (JNum (Fin 150)) JNull 1000))))) = 0
   \<and> lastSent (notification (projr (reset (projr (trigger
                    (sample_alert PRICE_ABOVE (Fin 150) (JNum (Fin 100)))
                    (JNum (Fin 150)) JNull 1000))))) = None
   \<and> isActive (projr (reset (projr (trigger (sample_alert PRICE_ABOVE (Fin 150) (JNum (Fin 100)))
                    (JNum (Fin 150)) JNull 1000)))) = False"
  by (simp add: trigger_returns reset_returns pre_save_fields sample_alert_def)

text \<open>
  C5. Claimed: on a cancelled alert \<^verbatim>\<open>reset()\<close>, \<^verbatim>\<open>enable()\<close> and \<^verbatim>\<open>disable()\<close> fail
  with \<open>InvalidStateError\<close> and leave \<^verbatim>\<open>status\<close> and \<^verbatim>\<open>isActive\<close> unchanged. On a
  cancelled alert \<^verbatim>\<open>enable()\<close> returns the alert, now \<open>ACTIVE\<close> and active.
\<close>

theorem C5_enable_revives_cancelled:
  "status (projr (cancel (sample_alert PRICE_ABOVE (Fin 150) (JNum (Fin 100))))) = CANCELLED
   \<and> enable (projr (cancel (sample_alert PRICE_ABOVE (Fin 150) (JNum (Fin 100)))))
       \<noteq> Inl InvalidStateError
   \<and> status (projr (enable (projr (cancel
         (sample_alert PRICE_ABOVE (Fin 150) (JNum (Fin 100))))))) = ACTIVE
   \<and> isActive (projr (enable (projr (cancel
         (sample_alert PRICE_ABOVE (Fin 150) (JNum (Fin 100)))))))"
  by (simp add: cancel_def enable_def save_def pre_save_fields)

text \<open>
  C5, as the code has it: no operation looks at the status it leaves. On an alert whose
  status is \<open>CANCELLED\<close>, \<^verbatim>\<open>reset()\<close>, \<^verbatim>\<open>enable()\<close> and \<^verbatim>\<open>disable()\<close> all succeed, none
  with \<open>InvalidStateError\<close>: \<^verbatim>\<open>enable()\<close> sets \<open>status = ACTIVE\<close> and \<open>isActive = true\<close>,
  \<^verbatim>\<open>disable()\<close> sets \<open>status = DISABLED\<close> and \<open>isActive = false\<close>, and \<^verbatim>\<open>reset()\<close> sets
  \<open>status = ACTIVE\<close>.
\<close>

theorem C5_cancelled_not_terminal:
  assumes "status a = CANCELLED"
  shows "(\<exists>b. enable a = Inr b \<and> status b = ACTIVE \<and> isActive b)
       \<and> (\<exists>b. disable a = Inr b \<and> status b = DISABLED \<and> \<not> isActive b)
       \<and> (\<exists>b. reset a = Inr b \<and> status b = ACTIVE)
       \<and> enable a \<noteq> Inl InvalidStateError
       \<and> disable a \<noteq> Inl InvalidStateError
       \<and> reset a \<noteq> Inl InvalidStateError"
  by (simp add: enable_def disable_def reset_returns save_def pre_save_fields)

theorem C5_cancelled_not_terminal_witness:
  "status ((sample_alert PRICE_ABOVE (Fin 150) (JNum (Fin 100)))
             \<lparr>status := CANCELLED, isActive := False\<rparr>) = CANCELLED
   \<and> (\<exists>b. enable ((sample_alert PRICE_ABOVE (Fin 150) (JNum (Fin 100)))
                     \<lparr>status := CANCELLED, isActive := False\<rparr>) = Inr b
          \<and> status b = ACTIVE \<and> isActive b)"
  using C5_cancelled_not_terminal
      [of "(sample_alert PRICE_ABOVE (Fin 150) (JNum (Fin 100)))
             \<lparr>status := CANCELLED, isActive := False\<rparr>"]
  by simp

subsection \<open>The gate: cooldown, snooze, mute, expiry\<close>

lemma snoozed_blocks: "snoozed a now \<Longrightarrow> \<not> canTriggerAgain a now"
  by (simp add: canTriggerAgain_def)

lemma snoozed_iff:
  "snoozed a now \<longleftrightarrow> (\<exists>s. snoozeUntil (userPreferences a) = Some s \<and> s > now)"
  by (simp add: snoozed_def split: option.splits)

lemma gate_ignores_isMuted:
  "canTriggerAgain (a\<lparr>userPreferences := (userPreferences a)\<lparr>isMuted := m\<rparr>\<rparr>) now
     = canTriggerAgain a now"
  by (simp add: canTriggerAgain_def snoozed_def isExpired_def split: option.splits)



text \<open>
  C7. Claimed: the gate returns false whenever \<^verbatim>\<open>snoozeUntil\<close> is in the future and also
  whenever \<^verbatim>\<open>isMuted\<close> is true. A muted alert that passes the other rules is let through.
\<close>

theorem C7_muted_alert_passes:
  "isMuted (userPreferences (gated_alert None None 0 \<lparr>snoozeUntil = None, isMuted = True\<rparr>))
   \<and> canTriggerAgain (gated_alert None None 0 \<lparr>snoozeUntil = None, isMuted = True\<rparr>) 1000"
  by (simp add: gated_alert_def sample_alert_def canTriggerAgain_def isExpired_def snoozed_def)

text \<open>
  C7, as the code has it: the gate returns false whenever \<^verbatim>\<open>snoozeUntil\<close> is set and
  strictly in the future, whatever the other fields are; \<^verbatim>\<open>isMuted\<close> is not read, so
  changing it never changes the gate's answer.
\<close>

theorem C7_snooze_blocks_mute_ignored:
  "(snoozeUntil (userPreferences a) = Some s \<and> s > now \<longrightarrow> \<not> canTriggerAgain a now)
   \<and> canTriggerAgain (a\<lparr>userPreferences := (userPreferences a)\<lparr>isMuted := m\<rparr>\<rparr>) now
       = canTriggerAgain a now"
  using snoozed_blocks [of a now] by (auto simp add: snoozed_iff gate_ignores_isMuted)

theorem C7_snooze_blocks_mute_ignored_witness:
  "snoozeUntil (userPreferences
       (gated_alert None None 0 \<lparr>snoozeUntil = Some 5000, isMuted = False\<rparr>)) = Some 5000
   \<and> (5000::int) > 1000
   \<and> \<not> canTriggerAgain
         (gated_alert None None 0 \<lparr>snoozeUntil = Some 5000, isMuted = False\<rparr>) 1000"
  using C7_snooze_blocks_mute_ignored
      [of "gated_alert None None 0 \<lparr>snoozeUntil = Some 5000, isMuted = False\<rparr>" 5000 1000]
  by (simp add: gated_alert_def)

text \<open>
  C8. Claimed: an alert whose \<^verbatim>\<open>expiresAt\<close> equals \<open>now\<close> does not pass the expiry rule.
  \<^verbatim>\<open>isExpired\<close> tests \<open>expiresAt < now\<close>: at \<open>expiresAt = now = 1000\<close> the alert is not
  expired and the gate lets it fire, although the query filter of the same file
  (\<open>expiresAt > now\<close>) no longer selects it.
\<close>

theorem C8_expiry_boundary_passes:
  "expiresAt (gated_alert (Some 1000) None 0 \<lparr>snoozeUntil = None, isMuted = False\<rparr>) = Some 1000
   \<and> \<not> isExpired (gated_alert (Some 1000) None 0 \<lparr>snoozeUntil = None, isMuted = False\<rparr>) 1000
   \<and> canTriggerAgain (gated_alert (Some 1000) None 0 \<lparr>snoozeUntil = None, isMuted = False\<rparr>) 1000
   \<and> \<not> active_query (gated_alert (Some 1000) None 0 \<lparr>snoozeUntil = None, isMuted = False\<rparr>) 1000"
  by (simp add: gated_alert_def sample_alert_def canTriggerAgain_def isExpired_def snoozed_def
      active_query_def)

subsection \<open>Thresholds of the evaluator\<close>

text \<open>On a populated stock the price thresholds are the inclusive comparisons, and so are
  the volume thresholds for a volume that is truthy (present, not zero, not NaN).\<close>

lemma price_thresholds_inclusive:
  assumes "stock a = Some s" and "currentPrice s = Some cp"
  shows "ctype (condition a) = PRICE_ABOVE \<Longrightarrow>
           checkConditions a p v = Inr (JBool (js_ge (to_number p) (targetValue (condition a))))"
    and "ctype (condition a) = PRICE_BELOW \<Longrightarrow>
           checkConditions a p v = Inr (JBool (js_le (to_number p) (targetValue (condition a))))"
  using assms by (simp_all add: checkConditions_def)

lemma volume_thresholds_truthy:
  assumes "stock a = Some s" and "currentPrice s = Some cp" and "truthy v"
  shows "ctype (condition a) = VOLUME_ABOVE \<Longrightarrow>
           checkConditions a p v = Inr (JBool (js_ge (to_number v) (targetValue (condition a))))"
    and "ctype (condition a) = VOLUME_BELOW \<Longrightarrow>
           checkConditions a p v = Inr (JBool (js_le (to_number v) (targetValue (condition a))))"
  using assms by (auto simp add: checkConditions_def volume_default_def)

text \<open>
  C9. Claimed: \<^verbatim>\<open>VOLUME_BELOW\<close> is met if and only if the volume is present and
  \<open>volume \<le> target\<close>, also when the volume is 0. With a volume of 0 and a target of 1000 the
  evaluator returns the volume itself, 0, which is falsy: the condition is not met although
  \<open>0 \<le> 1000\<close>. The price threshold is inclusive: at a price equal to the target
  \<^verbatim>\<open>PRICE_ABOVE\<close> is met.
\<close>

theorem C9_zero_volume_not_met:
  "checkConditions (sample_alert VOLUME_BELOW (Fin 1000) (JNum (Fin 100)))
     (JNum (Fin 10)) (JNum (Fin 0)) = Inr (JNum (Fin 0))
   \<and> \<not> condition_met (sample_alert VOLUME_BELOW (Fin 1000) (JNum (Fin 100)))
         (JNum (Fin 10)) (JNum (Fin 0))
   \<and> js_le (Fin 0) (Fin 1000)
   \<and> condition_met (sample_alert PRICE_ABOVE (Fin 150) (JNum (Fin 100)))
         (JNum (Fin 150)) JNull"
  by (simp add: checkConditions_def condition_met_def sample_alert_def sample_stock_def
      volume_default_def js_le_def js_ge_def)

subsection \<open>Reset and the user's suppression\<close>

text \<open>
  C10. \<^verbatim>\<open>reset()\<close> succeeds and leaves \<^verbatim>\<open>userPreferences\<close> (\<^verbatim>\<open>snoozeUntil\<close>,
  \<^verbatim>\<open>isMuted\<close>) as it was; the reset alert is \<open>ACTIVE\<close> with \<open>sendCount = 0\<close>, and a
  \<^verbatim>\<open>snoozeUntil\<close> still in the future keeps the gate closed on it.
\<close>

theorem C10_reset_keeps_suppression:
  "\<exists>b. reset a = Inr b
      \<and> snoozeUntil (userPreferences b) = snoozeUntil (userPreferences a)
      \<and> isMuted (userPreferences b) = isMuted (userPreferences a)
      \<and> status b = ACTIVE \<and> sendCount (notification b) = 0
      \<and> (\<forall>s. snoozeUntil (userPreferences a) = Some s \<and> s > now
             \<longrightarrow> \<not> canTriggerAgain b now)"
proof -
  let ?b = "pre_save
       (a\<lparr>status := ACTIVE, triggeredAt := None, triggerData := empty_triggerData,
          notification := (notification a)\<lparr>sendCount := 0, lastSent := None\<rparr>\<rparr>)"
  have ret: "reset a = Inr ?b" by (rule reset_returns)
  have prefs: "userPreferences ?b = userPreferences a" by (simp add: pre_save_fields)
  have closed: "\<not> canTriggerAgain ?b now"
    if "snoozeUntil (userPreferences a) = Some s \<and> s > now" for s
  proof -
    from that prefs have "snoozed ?b now" by (auto simp add: snoozed_iff)
    then show ?thesis by (rule snoozed_blocks)
  qed
  have fields: "status ?b = ACTIVE \<and> sendCount (notification ?b) = 0"
    by (simp add: pre_save_fields)
  from ret prefs closed fields show ?thesis by auto
qed

theorem C10_reset_keeps_suppression_witness:
  "\<exists>b. reset (projr (trigger
            (gated_alert None None 0 \<lparr>snoozeUntil = Some 5000, isMuted = False\<rparr>)
            (JNum (Fin 150)) JNull 500)) = Inr b
      \<and> snoozeUntil (userPreferences b) = Some 5000
      \<and> status b = ACTIVE \<and> sendCount (notification b) = 0
      \<and> (5000::int) > 1000
      \<and> \<not> canTriggerAgain b 1000"
  using C10_reset_keeps_suppression
      [of "projr (trigger
            (gated_alert None None 0 \<lparr>snoozeUntil = Some 5000, isMuted = False\<rparr>)
            (JNum (Fin 150)) JNull 500)" 1000]
  by (auto simp add: trigger_returns pre_save_fields gated_alert_def)

end
